theory Spec2Isabelle
  imports Complex_Main "HOL-Library.AList"
begin

section \<open>Python values\<close>

text \<open>
  The adapter of \<^verbatim>\<open>weaviate_vector.py\<close> moves dynamically typed data: document
  metadata on the way in, decoded JSON responses on the way out. Both are values of one
  universe. A \<^verbatim>\<open>datetime.datetime\<close> is a record of its fields; a float is read as
  the real number it denotes (NaN and the infinities do not occur in decoded JSON); a
  \<^verbatim>\<open>dict\<close> is an association list in insertion order.
\<close>

record datetime =
  year :: nat
  month :: nat
  day :: nat
  hour :: nat
  minute :: nat
  second :: nat
  microsecond :: nat
  utcoffset :: "int option"

datatype pyval =
    PNone
  | PBool bool
  | PInt int
  | PFloat real
  | PStr string
  | PDateTime datetime
  | PList "pyval list"
  | PDict "(string \<times> pyval) list"

type_synonym dict = "(string \<times> pyval) list"

text \<open>Every \<^verbatim>\<open>raise\<close> of the module, and every exception its expressions can throw.\<close>

datatype error =
    ValueError_config
  | ValueError_query pyval
  | ConnectionError
  | ValidationError
  | KeyError string
  | TypeError
  | AttributeError
  | IndexError

text \<open>\<^verbatim>\<open>bool(v)\<close>: the truth value Python's \<^verbatim>\<open>if v:\<close> tests.\<close>

fun py_truthy :: "pyval \<Rightarrow> bool" where
  "py_truthy PNone = False"
| "py_truthy (PBool b) = b"
| "py_truthy (PInt i) = (i \<noteq> 0)"
| "py_truthy (PFloat r) = (r \<noteq> 0)"
| "py_truthy (PStr s) = (s \<noteq> [])"
| "py_truthy (PDateTime d) = True"
| "py_truthy (PList xs) = (xs \<noteq> [])"
| "py_truthy (PDict d) = (d \<noteq> [])"

text \<open>\<^verbatim>\<open>v[k]\<close> with a string key: only a dict can be subscripted by a string.\<close>

fun subscript :: "pyval \<Rightarrow> string \<Rightarrow> error + pyval" where
  "subscript (PDict d) k = (case map_of d k of None \<Rightarrow> Inl (KeyError k) | Some v \<Rightarrow> Inr v)"
| "subscript _ k = Inl TypeError"

text \<open>\<^verbatim>\<open>s.endswith(suffix)\<close>.\<close>

definition endswith :: "string \<Rightarrow> string \<Rightarrow> bool" where
  "endswith s suffix =
     (length suffix \<le> length s \<and> drop (length s - length suffix) s = suffix)"

text \<open>\<^verbatim>\<open>s.replace(old, new)\<close> for single-character \<^verbatim>\<open>old\<close> and \<^verbatim>\<open>new\<close>.\<close>

definition replace :: "string \<Rightarrow> char \<Rightarrow> char \<Rightarrow> string" where
  "replace s old new = map (\<lambda>c. if c = old then new else c) s"

section \<open>Collection names\<close>

text \<open>
  \<^verbatim>\<open>Dataset\<close> is declared in \<^verbatim>\<open>models.dataset\<close>; the adapter reads two
  attributes of it: \<^verbatim>\<open>id\<close> (a string) and \<^verbatim>\<open>index_struct_dict\<close> (a dict, or
  \<^verbatim>\<open>None\<close>).
\<close>

record Dataset =
  dataset_id :: string
  index_struct_dict :: pyval

definition get_collection_name :: "Dataset \<Rightarrow> error + string" where
  "get_collection_name dataset =
     (if py_truthy (index_struct_dict dataset) then
        (case subscript (index_struct_dict dataset) ''vector_store'' of
           Inl e \<Rightarrow> Inl e
         | Inr vector_store \<Rightarrow>
             (case subscript vector_store ''class_prefix'' of
                Inl e \<Rightarrow> Inl e
              | Inr (PStr class_prefix) \<Rightarrow>
                  Inr (if \<not> endswith class_prefix ''_Node''
                       then class_prefix @ ''_Node'' else class_prefix)
              | Inr _ \<Rightarrow> Inl AttributeError))
      else Inr (''Vector_index_'' @ replace (dataset_id dataset) CHR ''-'' CHR ''_'' @ ''_Node''))"

definition get_type :: string where
  "get_type = ''weaviate''"

text \<open>\<^verbatim>\<open>to_index_struct\<close>, for an adapter whose collection name is \<open>name\<close>.\<close>

definition to_index_struct :: "string \<Rightarrow> pyval" where
  "to_index_struct name =
     PDict [(''type'', PStr get_type),
            (''vector_store'', PDict [(''class_prefix'', PStr name)])]"

section \<open>Documents and serialisation\<close>

text \<open>
  Modelled from the spec: \<^verbatim>\<open>Document\<close> (\<^verbatim>\<open>core.rag.models.document\<close> is not
  under src/). Section 3 of the spec: a document is a content string, never null, and a
  metadata mapping; so building one from a value that is not a string is refused.
\<close>

record Document =
  page_content :: string
  metadata :: dict

definition Document_new :: "pyval \<Rightarrow> dict \<Rightarrow> error + Document" where
  "Document_new text md =
     (case text of
        PStr s \<Rightarrow> Inr \<lparr>page_content = s, metadata = md\<rparr>
      | _ \<Rightarrow> Inl ValidationError)"

text \<open>
  Modelled from the spec: \<^verbatim>\<open>Field.TEXT_KEY.value\<close> (\<^verbatim>\<open>core.rag.datasource.vdb.field\<close>
  is not under src/), the reserved name of the text field. The module's own schema and
  its BM25 query call that field \<^verbatim>\<open>text\<close>.
\<close>

definition TEXT_KEY :: string where
  "TEXT_KEY = ''text''"

text \<open>
  \<^verbatim>\<open>datetime.isoformat()\<close> of the standard library:
  \<^verbatim>\<open>YYYY-MM-DDTHH:MM:SS\<close>, then \<^verbatim>\<open>.ffffff\<close> when the microseconds are not zero,
  then the UTC offset \<^verbatim>\<open>+HH:MM\<close> (with \<^verbatim>\<open>:SS\<close> when its seconds are not zero) for
  an aware value. \<open>zfill w n\<close> is \<^verbatim>\<open>"%0wd" % n\<close> for the field ranges a datetime
  has (\<open>n < 10 ^ w\<close>); the offset is in whole seconds.
\<close>

definition digit :: "nat \<Rightarrow> char" where
  "digit n = ''0123456789'' ! (n mod 10)"

fun zfill :: "nat \<Rightarrow> nat \<Rightarrow> string" where
  "zfill 0 n = []"
| "zfill (Suc w) n = zfill w (n div 10) @ [digit n]"

definition format_offset :: "int option \<Rightarrow> string" where
  "format_offset off =
     (case off of
        None \<Rightarrow> []
      | Some s \<Rightarrow>
          (let a = nat \<bar>s\<bar>; hh = a div 3600; mm = (a mod 3600) div 60; ss = a mod 60
           in (if s < 0 then ''-'' else ''+'') @ zfill 2 hh @ '':'' @ zfill 2 mm
              @ (if ss \<noteq> 0 then '':'' @ zfill 2 ss else [])))"

definition isoformat :: "datetime \<Rightarrow> string" where
  "isoformat d =
     zfill 4 (year d) @ ''-'' @ zfill 2 (month d) @ ''-'' @ zfill 2 (day d) @ ''T''
     @ zfill 2 (hour d) @ '':'' @ zfill 2 (minute d) @ '':'' @ zfill 2 (second d)
     @ (if microsecond d \<noteq> 0 then ''.'' @ zfill 6 (microsecond d) else [])
     @ format_offset (utcoffset d)"

fun json_serializable :: "pyval \<Rightarrow> pyval" where
  "json_serializable (PDateTime d) = PStr (isoformat d)"
| "json_serializable v = v"

section \<open>Configuration and the client\<close>

record WeaviateConfig =
  endpoint :: string
  api_key :: "string option"
  batch_size :: int

text \<open>
  The root validator of \<^verbatim>\<open>WeaviateConfig\<close>: it runs when the configuration object is
  built, and an object exists only when it returns. It reads nothing but the values.
\<close>

definition validate_config :: "WeaviateConfig \<Rightarrow> error + WeaviateConfig" where
  "validate_config values =
     (if endpoint values = [] then Inl ValueError_config else Inr values)"

text \<open>
  The query the builder of the client library assembles: each \<^verbatim>\<open>with_...\<close> call
  records its argument, \<open>None\<close> standing for a call that was not made.
\<close>

record query =
  q_class :: string
  q_near_vector :: "real list option"
  q_where :: "pyval option"
  q_limit :: "pyval option"
  q_additional :: "pyval option"
  q_bm25 :: "(string \<times> string list) option"

definition query_get :: "string \<Rightarrow> query" where
  "query_get class_name =
     \<lparr>q_class = class_name, q_near_vector = None, q_where = None, q_limit = None,
      q_additional = None, q_bm25 = None\<rparr>"

definition with_near_vector :: "real list \<Rightarrow> query \<Rightarrow> query" where
  "with_near_vector v q = q\<lparr>q_near_vector := Some v\<rparr>"

definition with_where :: "pyval \<Rightarrow> query \<Rightarrow> query" where
  "with_where w q = q\<lparr>q_where := Some w\<rparr>"

definition with_limit :: "pyval \<Rightarrow> query \<Rightarrow> query" where
  "with_limit n q = q\<lparr>q_limit := Some n\<rparr>"

definition with_additional :: "pyval \<Rightarrow> query \<Rightarrow> query" where
  "with_additional a q = q\<lparr>q_additional := Some a\<rparr>"

definition with_bm25 :: "string \<Rightarrow> string list \<Rightarrow> query \<Rightarrow> query" where
  "with_bm25 text props q = q\<lparr>q_bm25 := Some (text, props)\<rparr>"

text \<open>An object handed to the batch: \<^verbatim>\<open>batch.add_data_object(...)\<close>.\<close>

record batch_item =
  data_object :: dict
  class_name :: string
  uuid :: string
  vector :: "real list option"

text \<open>
  The vector database is a black box behind the client library. What the adapter can
  observe of it: whether it can be reached, which classes its schema holds, and what it
  answers to a query.
\<close>

record backend =
  reachable :: bool
  classes :: "pyval list"
  respond :: "query \<Rightarrow> dict"

text \<open>
  The client: its connection settings, the batch configuration and the objects waiting
  in the batch, the batches transmitted so far, the schema of the backend, its answers,
  and the log of the queries executed.
\<close>

record client =
  url :: string
  auth_client_secret :: "string option"
  timeout_config :: "nat \<times> nat"
  batch_recommended :: int
  batch_dynamic :: bool
  batch_timeout_retries :: nat
  batch_pending :: "batch_item list"
  batch_sent :: "batch_item list list"
  schema_classes :: "pyval list"
  answer :: "query \<Rightarrow> dict"
  issued :: "query list"

text \<open>
  \<^verbatim>\<open>_init_client\<close>: \<^verbatim>\<open>weaviate.Client(...)\<close> raises the transport's connection
  error when the backend cannot be reached, which the adapter turns into its own
  \<^verbatim>\<open>ConnectionError\<close>; then the batch is configured.
\<close>

definition init_client :: "backend \<Rightarrow> WeaviateConfig \<Rightarrow> error + client" where
  "init_client b config =
     (if \<not> reachable b then Inl ConnectionError
      else Inr \<lparr>url = endpoint config, auth_client_secret = api_key config,
                timeout_config = (5, 60),
                batch_recommended = batch_size config, batch_dynamic = True,
                batch_timeout_retries = 3,
                batch_pending = [], batch_sent = [],
                schema_classes = classes b, answer = respond b, issued = []\<rparr>)"

record WeaviateVector =
  collection_name :: string
  client :: client
  attributes :: "pyval list"

definition WeaviateVector_init ::
  "backend \<Rightarrow> string \<Rightarrow> WeaviateConfig \<Rightarrow> pyval list \<Rightarrow> error + WeaviateVector" where
  "WeaviateVector_init b name config attrs =
     (case init_client b config of
        Inl e \<Rightarrow> Inl e
      | Inr c \<Rightarrow> Inr \<lparr>collection_name = name, client = c, attributes = attrs\<rparr>)"

text \<open>\<^verbatim>\<open>.do()\<close>: the query is executed once and logged; the backend's answer is a dict.\<close>

definition query_do :: "query \<Rightarrow> client \<Rightarrow> dict \<times> client" where
  "query_do q c = (answer c q, c\<lparr>issued := issued c @ [q]\<rparr>)"

text \<open>
  The batch of the client library: an added object waits in the batch, and the batch is
  transmitted when it has reached the configured size, and when the \<^verbatim>\<open>with\<close> block
  is left.
\<close>

definition batch_flush :: "client \<Rightarrow> client" where
  "batch_flush c =
     (if batch_pending c = [] then c
      else c\<lparr>batch_sent := batch_sent c @ [batch_pending c], batch_pending := []\<rparr>)"

definition batch_add_data_object :: "batch_item \<Rightarrow> client \<Rightarrow> client" where
  "batch_add_data_object obj c =
     (let c' = c\<lparr>batch_pending := batch_pending c @ [obj]\<rparr>
      in if batch_recommended c' \<le> int (length (batch_pending c')) then batch_flush c' else c')"

text \<open>
  Modelled from the spec: the schema store of the backend (section 4.1): a schema is
  present when a class of its name is; creating a class adds it.
\<close>

definition schema_contains :: "client \<Rightarrow> pyval \<Rightarrow> bool" where
  "schema_contains c schema =
     (subscript schema ''class'' \<in> set (map (\<lambda>cls. subscript cls ''class'') (schema_classes c)))"

definition schema_create_class :: "pyval \<Rightarrow> client \<Rightarrow> client" where
  "schema_create_class schema c = c\<lparr>schema_classes := schema_classes c @ [schema]\<rparr>"

section \<open>The adapter\<close>

definition default_schema :: "string \<Rightarrow> pyval" where
  "default_schema index_name =
     PDict [(''class'', PStr index_name),
            (''properties'',
             PList [PDict [(''name'', PStr ''text''), (''dataType'', PList [PStr ''text''])]])]"

text \<open>
  \<^verbatim>\<open>add_texts\<close>. \<^verbatim>\<open>_get_uuids\<close> belongs to the base class, which is not under
  src/: it is the parameter \<open>get_uuids\<close>, and may raise. The loop runs over
  \<^verbatim>\<open>enumerate(texts)\<close>; \<^verbatim>\<open>metadatas\<close> is as long as \<^verbatim>\<open>texts\<close>, so
  \<^verbatim>\<open>metadatas[i]\<close> is in range, while \<^verbatim>\<open>uuids[i]\<close> and \<^verbatim>\<open>embeddings[i]\<close>
  raise \<^verbatim>\<open>IndexError\<close> out of range. Leaving the \<^verbatim>\<open>with\<close> block transmits what
  waits in the batch, also when the loop raised.
\<close>

definition data_properties_of :: "string \<Rightarrow> dict \<Rightarrow> dict" where
  "data_properties_of text md =
     fold (\<lambda>(key, val) data_properties. AList.update key (json_serializable val) data_properties)
       md [(TEXT_KEY, PStr text)]"

fun add_texts_loop ::
  "string \<Rightarrow> string list \<Rightarrow> dict list \<Rightarrow> real list list \<Rightarrow> (nat \<times> string) list
     \<Rightarrow> string list \<Rightarrow> client \<Rightarrow> (error + string list) \<times> client" where
  "add_texts_loop cn uuids metadatas embeddings [] ids batch = (Inr ids, batch)"
| "add_texts_loop cn uuids metadatas embeddings ((i, text) # rest) ids batch =
     (let data_properties = data_properties_of text (metadatas ! i)
      in if length uuids \<le> i then (Inl IndexError, batch)
         else if embeddings \<noteq> [] \<and> length embeddings \<le> i then (Inl IndexError, batch)
         else add_texts_loop cn uuids metadatas embeddings rest (ids @ [uuids ! i])
                (batch_add_data_object
                   \<lparr>data_object = data_properties, class_name = cn, uuid = uuids ! i,
                    vector = (if embeddings \<noteq> [] then Some (embeddings ! i) else None)\<rparr>
                   batch))"

definition add_texts ::
  "(Document list \<Rightarrow> error + string list) \<Rightarrow> WeaviateVector \<Rightarrow> Document list
     \<Rightarrow> real list list \<Rightarrow> (error + string list) \<times> WeaviateVector" where
  "add_texts get_uuids self documents embeddings =
     (case get_uuids documents of
        Inl e \<Rightarrow> (Inl e, self)
      | Inr uuids \<Rightarrow>
          (let texts = map page_content documents;
               metadatas = map metadata documents;
               (r, batch) = add_texts_loop (collection_name self) uuids metadatas embeddings
                              (enumerate 0 texts) [] (client self)
           in (r, self\<lparr>client := batch_flush batch\<rparr>)))"

definition create ::
  "(Document list \<Rightarrow> error + string list) \<Rightarrow> WeaviateVector \<Rightarrow> Document list
     \<Rightarrow> real list list \<Rightarrow> (error + string list) \<times> WeaviateVector" where
  "create get_uuids self texts embeddings =
     (let schema = default_schema (collection_name self);
          c = (if \<not> schema_contains (client self) schema
               then schema_create_class schema (client self) else client self)
      in add_texts get_uuids (self\<lparr>client := c\<rparr>) texts embeddings)"

text \<open>
  Reading a response. \<^verbatim>\<open>result["data"]["Get"][collection_name]\<close>; \<^verbatim>\<open>len(v)\<close>;
  \<^verbatim>\<open>for res in v\<close> (a dict iterates over its keys, a string over its characters);
  \<^verbatim>\<open>res.pop(key)\<close> (a list has a \<^verbatim>\<open>pop\<close> that refuses a string, other values
  have none).
\<close>

definition get_entries :: "dict \<Rightarrow> string \<Rightarrow> error + pyval" where
  "get_entries result cn =
     (case subscript (PDict result) ''data'' of
        Inl e \<Rightarrow> Inl e
      | Inr d \<Rightarrow>
          (case subscript d ''Get'' of
             Inl e \<Rightarrow> Inl e
           | Inr g \<Rightarrow> subscript g cn))"

fun py_len :: "pyval \<Rightarrow> error + nat" where
  "py_len (PList xs) = Inr (length xs)"
| "py_len (PDict d) = Inr (length d)"
| "py_len (PStr s) = Inr (length s)"
| "py_len _ = Inl TypeError"

fun py_iter :: "pyval \<Rightarrow> error + pyval list" where
  "py_iter (PList xs) = Inr xs"
| "py_iter (PDict d) = Inr (map (\<lambda>(k, v). PStr k) d)"
| "py_iter (PStr s) = Inr (map (\<lambda>c. PStr [c]) s)"
| "py_iter _ = Inl TypeError"

fun py_pop :: "pyval \<Rightarrow> string \<Rightarrow> error + (pyval \<times> dict)" where
  "py_pop (PDict d) k =
     (case map_of d k of
        None \<Rightarrow> Inl (KeyError k)
      | Some v \<Rightarrow> Inr (v, AList.delete k d))"
| "py_pop (PList xs) k = Inl TypeError"
| "py_pop _ k = Inl AttributeError"

text \<open>A \<^verbatim>\<open>for\<close> loop that appends one result per element and stops at the first raise.\<close>

fun for_each :: "('a \<Rightarrow> error + 'b) \<Rightarrow> 'a list \<Rightarrow> error + 'b list" where
  "for_each f [] = Inr []"
| "for_each f (x # xs) =
     (case f x of
        Inl e \<Rightarrow> Inl e
      | Inr y \<Rightarrow> (case for_each f xs of Inl e \<Rightarrow> Inl e | Inr ys \<Rightarrow> Inr (y # ys)))"

text \<open>
  The keyword arguments the search methods read. \<open>None\<close> is a keyword that was not
  supplied; \<^verbatim>\<open>score_threshold\<close> is a number.
\<close>

record kwargs =
  where_filter :: "pyval option"
  top_k :: "pyval option"
  score_threshold :: "real option"
  search_distance :: "pyval option"
  additional :: "pyval option"

text \<open>\<^verbatim>\<open>kwargs.get(key)\<close> and \<^verbatim>\<open>kwargs.get(key, default)\<close>.\<close>

definition kwargs_get :: "'a option \<Rightarrow> 'a \<Rightarrow> 'a" where
  "kwargs_get v dflt = (case v of None \<Rightarrow> dflt | Some x \<Rightarrow> x)"

definition text_exists :: "WeaviateVector \<Rightarrow> string \<Rightarrow> (error + bool) \<times> WeaviateVector" where
  "text_exists self id' =
     (let cn = collection_name self;
          (result, c) =
             query_do
               (with_limit (PInt 1)
                 (with_where
                    (PDict [(''path'', PList [PStr ''doc_id'']),
                            (''operator'', PStr ''Equal''),
                            (''valueText'', PStr id')])
                    (with_additional (PList [PStr ''id'']) (query_get cn))))
               (client self)
      in ((case map_of result ''errors'' of
             Some errors \<Rightarrow> Inl (ValueError_query errors)
           | None \<Rightarrow>
               (case get_entries result cn of
                  Inl e \<Rightarrow> Inl e
                | Inr entries \<Rightarrow>
                    (case py_len entries of
                       Inl e \<Rightarrow> Inl e
                     | Inr n \<Rightarrow> Inr (if n = 0 then False else True)))),
          self\<lparr>client := c\<rparr>))"

text \<open>
  \<^verbatim>\<open>search_by_vector\<close>. The first loop turns every row into a document and its
  score; the second keeps the documents that pass the threshold test and writes the
  score into their metadata. \<^verbatim>\<open>score > score_threshold\<close> compares numbers (a bool
  counts as 0 or 1) and raises \<^verbatim>\<open>TypeError\<close> on anything else.
\<close>

fun py_num :: "pyval \<Rightarrow> real option" where
  "py_num (PBool b) = Some (if b then 1 else 0)"
| "py_num (PInt i) = Some (of_int i)"
| "py_num (PFloat r) = Some r"
| "py_num _ = None"

definition py_gt :: "pyval \<Rightarrow> real \<Rightarrow> error + bool" where
  "py_gt v t = (case py_num v of None \<Rightarrow> Inl TypeError | Some x \<Rightarrow> Inr (x > t))"

definition vector_row :: "pyval \<Rightarrow> error + (Document \<times> pyval)" where
  "vector_row res =
     (case py_pop res TEXT_KEY of
        Inl e \<Rightarrow> Inl e
      | Inr (text, res') \<Rightarrow>
          (case subscript (PDict res') ''_additional'' of
             Inl e \<Rightarrow> Inl e
           | Inr a \<Rightarrow>
               (case subscript a ''distance'' of
                  Inl e \<Rightarrow> Inl e
                | Inr score \<Rightarrow>
                    (case Document_new text res' of
                       Inl e \<Rightarrow> Inl e
                     | Inr doc \<Rightarrow> Inr (doc, score)))))"

fun threshold_loop :: "real \<Rightarrow> (Document \<times> pyval) list \<Rightarrow> error + Document list" where
  "threshold_loop threshold [] = Inr []"
| "threshold_loop threshold ((doc, score) # rest) =
     (case py_gt score threshold of
        Inl e \<Rightarrow> Inl e
      | Inr keep \<Rightarrow>
          (case threshold_loop threshold rest of
             Inl e \<Rightarrow> Inl e
           | Inr docs \<Rightarrow>
               Inr (if keep
                    then doc\<lparr>metadata := AList.update ''score'' score (metadata doc)\<rparr> # docs
                    else docs)))"

definition search_by_vector ::
  "WeaviateVector \<Rightarrow> real list \<Rightarrow> kwargs \<Rightarrow> (error + Document list) \<times> WeaviateVector" where
  "search_by_vector self query_vector kw =
     (let cn = collection_name self;
          query_obj = query_get cn;
          (result, c) =
             query_do
               (with_additional (PList [PStr ''vector'', PStr ''distance''])
                 (with_limit (kwargs_get (top_k kw) (PInt 4))
                   (with_where (kwargs_get (where_filter kw) PNone)
                     (with_near_vector query_vector query_obj))))
               (client self)
      in ((case map_of result ''errors'' of
             Some errors \<Rightarrow> Inl (ValueError_query errors)
           | None \<Rightarrow>
               (case get_entries result cn of
                  Inl e \<Rightarrow> Inl e
                | Inr entries \<Rightarrow>
                    (case py_iter entries of
                       Inl e \<Rightarrow> Inl e
                     | Inr rows \<Rightarrow>
                         (case for_each vector_row rows of
                            Inl e \<Rightarrow> Inl e
                          | Inr docs_and_scores \<Rightarrow>
                              threshold_loop (kwargs_get (score_threshold kw) 0)
                                docs_and_scores)))),
          self\<lparr>client := c\<rparr>))"

text \<open>
  \<^verbatim>\<open>search_by_full_text\<close>. The dict \<^verbatim>\<open>content\<close> is built as the source builds it,
  and as in the source nothing reads it afterwards.
\<close>

definition full_text_row :: "pyval \<Rightarrow> error + Document" where
  "full_text_row res =
     (case py_pop res TEXT_KEY of
        Inl e \<Rightarrow> Inl e
      | Inr (text, res') \<Rightarrow> Document_new text res')"

definition search_by_full_text ::
  "WeaviateVector \<Rightarrow> string \<Rightarrow> kwargs \<Rightarrow> (error + Document list) \<times> WeaviateVector" where
  "search_by_full_text self query_text kw =
     (let cn = collection_name self;
          content = [(''concepts'', PList [PStr query_text])];
          content = (if py_truthy (kwargs_get (search_distance kw) PNone)
                     then AList.update ''certainty'' (kwargs_get (search_distance kw) PNone) content
                     else content);
          query_obj = query_get cn;
          query_obj = (if py_truthy (kwargs_get (where_filter kw) PNone)
                       then with_where (kwargs_get (where_filter kw) PNone) query_obj
                       else query_obj);
          query_obj = (if py_truthy (kwargs_get (additional kw) PNone)
                       then with_additional (kwargs_get (additional kw) PNone) query_obj
                       else query_obj);
          properties = [''text''];
          (result, c) =
             query_do
               (with_limit (kwargs_get (top_k kw) (PInt 2))
                 (with_bm25 query_text properties query_obj))
               (client self)
      in ((case map_of result ''errors'' of
             Some errors \<Rightarrow> Inl (ValueError_query errors)
           | None \<Rightarrow>
               (case get_entries result cn of
                  Inl e \<Rightarrow> Inl e
                | Inr entries \<Rightarrow>
                    (case py_iter entries of
                       Inl e \<Rightarrow> Inl e
                     | Inr rows \<Rightarrow> for_each full_text_row rows))),
          self\<lparr>client := c\<rparr>))"

section \<open>A backend with a fixed answer\<close>

text \<open>
  For evaluating the adapter on concrete inputs: an adapter for the collection
  \<^verbatim>\<open>Doc_Node\<close> whose backend answers every query with the response \<open>r\<close> and whose
  schema holds the classes \<open>cs\<close>.
\<close>

definition fixed_vector :: "dict \<Rightarrow> pyval list \<Rightarrow> WeaviateVector" where
  "fixed_vector r cs =
     \<lparr>collection_name = ''Doc_Node'',
      client = \<lparr>url = ''http://weaviate:8080'', auth_client_secret = None,
                timeout_config = (5, 60), batch_recommended = 2, batch_dynamic = True,
                batch_timeout_retries = 3, batch_pending = [], batch_sent = [],
                schema_classes = cs, answer = (\<lambda>q. r), issued = []\<rparr>,
      attributes = []\<rparr>"

text \<open>The response that holds the rows \<open>rows\<close> of the collection \<^verbatim>\<open>Doc_Node\<close>.\<close>

definition rows_response :: "pyval list \<Rightarrow> dict" where
  "rows_response rows = [(''data'', PDict [(''Get'', PDict [(''Doc_Node'', PList rows)])])]"

text \<open>A row with the text \<open>t\<close> and the distance \<open>d\<close>.\<close>

definition scored_row :: "string \<Rightarrow> real \<Rightarrow> pyval" where
  "scored_row t d = PDict [(TEXT_KEY, PStr t), (''_additional'', PDict [(''distance'', PFloat d)])]"

section \<open>Properties of the name derivation\<close>

lemma endswith_append: "endswith (s @ suffix) suffix"
  by (simp add: endswith_def)

lemma get_collection_name_stored:
  assumes "index_struct_dict d = PDict ix"
    and "map_of ix ''vector_store'' = Some (PDict vs)"
    and "map_of vs ''class_prefix'' = Some (PStr p)"
  shows "get_collection_name d = Inr (if endswith p ''_Node'' then p else p @ ''_Node'')"
proof -
  from assms(2) have "ix \<noteq> []" by auto
  with assms show ?thesis by (simp add: get_collection_name_def)
qed

lemma get_collection_name_roundtrip:
  "get_collection_name (d\<lparr>index_struct_dict := to_index_struct n\<rparr>) =
     Inr (if endswith n ''_Node'' then n else n @ ''_Node'')"
  by (simp add: get_collection_name_def to_index_struct_def)

text \<open>
  C2. The derived name is a function of the stored class prefix alone when an index
  structure is stored, and of the dataset id alone when none is: two datasets that agree
  on it get the same name. With a stored prefix \<open>p\<close> the name is \<open>p\<close> itself when \<open>p\<close>
  ends with \<^verbatim>\<open>_Node\<close> and \<open>p\<close> followed by \<^verbatim>\<open>_Node\<close> otherwise; the name
  always ends with the marker, and a name that is stored back as the class prefix (through
  \<^verbatim>\<open>to_index_struct\<close>) is derived again unchanged, so the marker is never appended
  twice. With no index structure stored (\<^verbatim>\<open>None\<close> or an empty dict) the name is
  \<^verbatim>\<open>Vector_index_\<close>, the id with every hyphen replaced by an underscore, and the marker.
\<close>

theorem get_collection_name_deterministic:
  fixes d d' :: Dataset
  shows "(index_struct_dict d = PDict ix \<and> map_of ix ''vector_store'' = Some (PDict vs)
            \<and> map_of vs ''class_prefix'' = Some (PStr p)
          \<longrightarrow> (\<exists>n. get_collection_name d = Inr n
                 \<and> n = (if endswith p ''_Node'' then p else p @ ''_Node'')
                 \<and> endswith n ''_Node''
                 \<and> get_collection_name (d\<lparr>index_struct_dict := to_index_struct n\<rparr>) = Inr n
                 \<and> (index_struct_dict d' = PDict ix' \<and> map_of ix' ''vector_store'' = Some (PDict vs')
                      \<and> map_of vs' ''class_prefix'' = Some (PStr p)
                    \<longrightarrow> get_collection_name d' = Inr n)))
       \<and> (\<not> py_truthy (index_struct_dict d)
          \<longrightarrow> get_collection_name d
                = Inr (''Vector_index_'' @ replace (dataset_id d) CHR ''-'' CHR ''_'' @ ''_Node'')
              \<and> (\<not> py_truthy (index_struct_dict d') \<and> dataset_id d' = dataset_id d
                 \<longrightarrow> get_collection_name d' = get_collection_name d))"
proof (intro conjI impI)
  assume a: "index_struct_dict d = PDict ix \<and> map_of ix ''vector_store'' = Some (PDict vs)
            \<and> map_of vs ''class_prefix'' = Some (PStr p)"
  define n where "n = (if endswith p ''_Node'' then p else p @ ''_Node'')"
  have 1: "get_collection_name d = Inr n"
    using a get_collection_name_stored [of d ix vs p] by (simp add: n_def)
  have 2: "endswith n ''_Node''"
    using endswith_append [of p "''_Node''"] by (simp add: n_def)
  have 3: "get_collection_name (d\<lparr>index_struct_dict := to_index_struct n\<rparr>) = Inr n"
    using 2 by (simp add: get_collection_name_roundtrip)
  have 4: "index_struct_dict d' = PDict ix' \<and> map_of ix' ''vector_store'' = Some (PDict vs')
             \<and> map_of vs' ''class_prefix'' = Some (PStr p)
           \<longrightarrow> get_collection_name d' = Inr n"
    using get_collection_name_stored [of d' ix' vs' p] by (simp add: n_def)
  from 1 2 3 4 show "\<exists>n. get_collection_name d = Inr n
                 \<and> n = (if endswith p ''_Node'' then p else p @ ''_Node'')
                 \<and> endswith n ''_Node''
                 \<and> get_collection_name (d\<lparr>index_struct_dict := to_index_struct n\<rparr>) = Inr n
                 \<and> (index_struct_dict d' = PDict ix' \<and> map_of ix' ''vector_store'' = Some (PDict vs')
                      \<and> map_of vs' ''class_prefix'' = Some (PStr p)
                    \<longrightarrow> get_collection_name d' = Inr n)"
    unfolding n_def by blast
next
  assume "\<not> py_truthy (index_struct_dict d)"
  then show "get_collection_name d
      = Inr (''Vector_index_'' @ replace (dataset_id d) CHR ''-'' CHR ''_'' @ ''_Node'')"
    by (simp add: get_collection_name_def)
next
  assume "\<not> py_truthy (index_struct_dict d)"
    and "\<not> py_truthy (index_struct_dict d') \<and> dataset_id d' = dataset_id d"
  then show "get_collection_name d' = get_collection_name d"
    by (simp add: get_collection_name_def)
qed

theorem get_collection_name_deterministic_witness:
  "get_collection_name \<lparr>dataset_id = ''1a-2b'',
       index_struct_dict = to_index_struct ''Vector_index_1a_2b''\<rparr>
     = Inr ''Vector_index_1a_2b_Node''
   \<and> get_collection_name \<lparr>dataset_id = ''1a-2b'',
       index_struct_dict = to_index_struct ''Vector_index_1a_2b_Node''\<rparr>
     = Inr ''Vector_index_1a_2b_Node''
   \<and> get_collection_name \<lparr>dataset_id = ''7c'',
       index_struct_dict = to_index_struct ''Vector_index_1a_2b''\<rparr>
     = Inr ''Vector_index_1a_2b_Node''
   \<and> get_collection_name \<lparr>dataset_id = ''1a-2b'', index_struct_dict = PNone\<rparr>
     = Inr ''Vector_index_1a_2b_Node''
   \<and> get_collection_name \<lparr>dataset_id = ''1a-2b'', index_struct_dict = PDict []\<rparr>
     = get_collection_name \<lparr>dataset_id = ''1a-2b'', index_struct_dict = PNone\<rparr>"
  using get_collection_name_deterministic
      [where d = "\<lparr>dataset_id = ''1a-2b'',
                    index_struct_dict = to_index_struct ''Vector_index_1a_2b''\<rparr>"
         and ix = "[(''type'', PStr get_type),
                    (''vector_store'', PDict [(''class_prefix'', PStr ''Vector_index_1a_2b'')])]"
         and vs = "[(''class_prefix'', PStr ''Vector_index_1a_2b'')]"
         and p = "''Vector_index_1a_2b''"
         and d' = "\<lparr>dataset_id = ''7c'',
                    index_struct_dict = to_index_struct ''Vector_index_1a_2b''\<rparr>"
         and ix' = "[(''type'', PStr get_type),
                    (''vector_store'', PDict [(''class_prefix'', PStr ''Vector_index_1a_2b'')])]"
         and vs' = "[(''class_prefix'', PStr ''Vector_index_1a_2b'')]"]
    get_collection_name_deterministic
      [where d = "\<lparr>dataset_id = ''1a-2b'', index_struct_dict = PNone\<rparr>"
         and d' = "\<lparr>dataset_id = ''1a-2b'', index_struct_dict = PDict []\<rparr>"
         and ix = "[]" and vs = "[]" and p = "[]" and ix' = "[]" and vs' = "[]"]
  by (simp add: to_index_struct_def endswith_def replace_def)

section \<open>Vector search\<close>

lemma for_each_Inr:
  "for_each f xs = Inr ys \<Longrightarrow> list_all2 (\<lambda>x y. f x = Inr y) xs ys"
  by (induction xs arbitrary: ys) (auto split: sum.splits)

lemma threshold_loop_Inr:
  "threshold_loop t ds = Inr docs \<Longrightarrow>
     docs = map (\<lambda>(doc, score). doc\<lparr>metadata := AList.update ''score'' score (metadata doc)\<rparr>)
              (filter (\<lambda>(doc, score). case py_num score of None \<Rightarrow> False | Some x \<Rightarrow> x > t) ds)"
  by (induction t ds arbitrary: docs rule: threshold_loop.induct)
     (auto split: sum.splits if_splits option.splits simp: py_gt_def)

lemma threshold_loop_numeric:
  "\<forall>(doc, score) \<in> set ds. py_num score \<noteq> None \<Longrightarrow>
     threshold_loop t ds =
       Inr (map (\<lambda>(doc, score). doc\<lparr>metadata := AList.update ''score'' score (metadata doc)\<rparr>)
              (filter (\<lambda>(doc, score). case py_num score of None \<Rightarrow> False | Some x \<Rightarrow> x > t) ds))"
  by (induction t ds rule: threshold_loop.induct) (auto simp: py_gt_def)

lemma search_by_vector_issued:
  "issued (client (snd (search_by_vector self query_vector kw))) =
     issued (client self) @
       [\<lparr>q_class = collection_name self, q_near_vector = Some query_vector,
         q_where = Some (case where_filter kw of None \<Rightarrow> PNone | Some w \<Rightarrow> w),
         q_limit = Some (case top_k kw of None \<Rightarrow> PInt 4 | Some k \<Rightarrow> k),
         q_additional = Some (PList [PStr ''vector'', PStr ''distance'']),
         q_bm25 = None\<rparr>]"
  by (simp add: search_by_vector_def query_do_def Let_def with_additional_def with_limit_def
      with_where_def with_near_vector_def query_get_def kwargs_get_def split_def)

lemma search_by_vector_result:
  "fst (search_by_vector self query_vector kw) =
     (let result = answer (client self)
            \<lparr>q_class = collection_name self, q_near_vector = Some query_vector,
             q_where = Some (case where_filter kw of None \<Rightarrow> PNone | Some w \<Rightarrow> w),
             q_limit = Some (case top_k kw of None \<Rightarrow> PInt 4 | Some k \<Rightarrow> k),
             q_additional = Some (PList [PStr ''vector'', PStr ''distance'']),
             q_bm25 = None\<rparr>
      in case map_of result ''errors'' of
           Some errors \<Rightarrow> Inl (ValueError_query errors)
         | None \<Rightarrow>
             (case get_entries result (collection_name self) of
                Inl e \<Rightarrow> Inl e
              | Inr entries \<Rightarrow>
                  (case py_iter entries of
                     Inl e \<Rightarrow> Inl e
                   | Inr rows \<Rightarrow>
                       (case for_each vector_row rows of
                          Inl e \<Rightarrow> Inl e
                        | Inr docs_and_scores \<Rightarrow>
                            threshold_loop (case score_threshold kw of None \<Rightarrow> 0 | Some x \<Rightarrow> x)
                              docs_and_scores))))"
  by (simp add: search_by_vector_def query_do_def Let_def with_additional_def with_limit_def
      with_where_def with_near_vector_def query_get_def kwargs_get_def split_def
      cong del: option.case_cong_weak sum.case_cong_weak)

text \<open>
  C1, as the code has it. The query of a vector search asks for the nearest neighbours of
  the vector with the distance among the additional fields. When the search returns
  documents, the response had no \<^verbatim>\<open>errors\<close> entry, every row gave a document and
  a score, and the documents returned are, in order, exactly those whose score is a
  number strictly greater than the threshold (0 when none is supplied), each with its
  score written into its metadata under \<^verbatim>\<open>score\<close>. Conversely, when the rows give
  documents with numeric scores the search returns exactly those. A row whose score is
  equal to or below the threshold is excluded.
\<close>

theorem search_by_vector_threshold:
  fixes self :: WeaviateVector and kw :: kwargs and query_vector :: "real list"
  defines "q \<equiv> \<lparr>q_class = collection_name self, q_near_vector = Some query_vector,
             q_where = Some (case where_filter kw of None \<Rightarrow> PNone | Some w \<Rightarrow> w),
             q_limit = Some (case top_k kw of None \<Rightarrow> PInt 4 | Some k \<Rightarrow> k),
             q_additional = Some (PList [PStr ''vector'', PStr ''distance'']),
             q_bm25 = None\<rparr>"
    and "t \<equiv> (case score_threshold kw of None \<Rightarrow> 0 | Some x \<Rightarrow> x)"
    and "attach \<equiv> (\<lambda>(doc, score). doc\<lparr>metadata := AList.update ''score'' score (metadata doc)\<rparr>)"
  shows "(fst (search_by_vector self query_vector kw) = Inr docs \<longrightarrow>
            (\<exists>entries rows ds.
                map_of (answer (client self) q) ''errors'' = None
              \<and> get_entries (answer (client self) q) (collection_name self) = Inr entries
              \<and> py_iter entries = Inr rows
              \<and> for_each vector_row rows = Inr ds
              \<and> docs = map attach (filter (\<lambda>(doc, score). case py_num score of None \<Rightarrow> False | Some x \<Rightarrow> x > t) ds)
              \<and> (\<forall>doc \<in> set docs. \<exists>score x. map_of (metadata doc) ''score'' = Some score
                      \<and> py_num score = Some x \<and> x > t)))
       \<and> (map_of (answer (client self) q) ''errors'' = None
            \<and> get_entries (answer (client self) q) (collection_name self) = Inr (PList rows)
            \<and> for_each vector_row rows = Inr ds
            \<and> (\<forall>(doc, score) \<in> set ds. py_num score \<noteq> None)
          \<longrightarrow> fst (search_by_vector self query_vector kw)
                = Inr (map attach (filter (\<lambda>(doc, score). case py_num score of None \<Rightarrow> False | Some x \<Rightarrow> x > t) ds)))"
proof (intro conjI impI)
  assume a: "fst (search_by_vector self query_vector kw) = Inr docs"
  let ?r = "answer (client self) q"
  from a obtain entries rows ds where
    n: "map_of ?r ''errors'' = None"
    and e: "get_entries ?r (collection_name self) = Inr entries"
    and r: "py_iter entries = Inr rows"
    and d: "for_each vector_row rows = Inr ds"
    and l: "threshold_loop t ds = Inr docs"
    unfolding search_by_vector_result q_def t_def Let_def
    by (auto split: option.splits sum.splits)
  have docs: "docs = map attach (filter (\<lambda>(doc, score). case py_num score of None \<Rightarrow> False | Some x \<Rightarrow> x > t) ds)"
    using threshold_loop_Inr [OF l] by (simp add: attach_def)
  have "\<forall>doc \<in> set docs. \<exists>score x. map_of (metadata doc) ''score'' = Some score
                      \<and> py_num score = Some x \<and> x > t"
    unfolding docs attach_def by (auto simp: update_conv' split: option.splits)
  with n e r d docs show "\<exists>entries rows ds.
                map_of (answer (client self) q) ''errors'' = None
              \<and> get_entries (answer (client self) q) (collection_name self) = Inr entries
              \<and> py_iter entries = Inr rows
              \<and> for_each vector_row rows = Inr ds
              \<and> docs = map attach (filter (\<lambda>(doc, score). case py_num score of None \<Rightarrow> False | Some x \<Rightarrow> x > t) ds)
              \<and> (\<forall>doc \<in> set docs. \<exists>score x. map_of (metadata doc) ''score'' = Some score
                      \<and> py_num score = Some x \<and> x > t)"
    by blast
next
  assume b: "map_of (answer (client self) q) ''errors'' = None
            \<and> get_entries (answer (client self) q) (collection_name self) = Inr (PList rows)
            \<and> for_each vector_row rows = Inr ds
            \<and> (\<forall>(doc, score) \<in> set ds. py_num score \<noteq> None)"
  then have "threshold_loop t ds
      = Inr (map attach (filter (\<lambda>(doc, score). case py_num score of None \<Rightarrow> False | Some x \<Rightarrow> x > t) ds))"
    using threshold_loop_numeric [of ds t] by (simp add: attach_def)
  with b show "fst (search_by_vector self query_vector kw)
                = Inr (map attach (filter (\<lambda>(doc, score). case py_num score of None \<Rightarrow> False | Some x \<Rightarrow> x > t) ds))"
    unfolding search_by_vector_result q_def [symmetric] t_def [symmetric] Let_def
    by simp
qed

theorem search_by_vector_threshold_witness:
  "fst (search_by_vector
          (fixed_vector (rows_response [scored_row ''same'' 0, scored_row ''other'' 0.3]) [])
          [1, 0]
          \<lparr>where_filter = None, top_k = None, score_threshold = None,
           search_distance = None, additional = None\<rparr>)
     = Inr [\<lparr>page_content = ''other'',
              metadata = [(''_additional'', PDict [(''distance'', PFloat 0.3)]),
                          (''score'', PFloat 0.3)]\<rparr>]"
  using search_by_vector_threshold
    [where self = "fixed_vector (rows_response [scored_row ''same'' 0, scored_row ''other'' 0.3]) []"
       and query_vector = "[1, 0]"
       and kw = "\<lparr>where_filter = None, top_k = None, score_threshold = None,
                  search_distance = None, additional = None\<rparr>"
       and docs = "[]"
       and rows = "[scored_row ''same'' 0, scored_row ''other'' 0.3]"
       and ds = "[(\<lparr>page_content = ''same'',
                     metadata = [(''_additional'', PDict [(''distance'', PFloat 0)])]\<rparr>, PFloat 0),
                  (\<lparr>page_content = ''other'',
                     metadata = [(''_additional'', PDict [(''distance'', PFloat 0.3)])]\<rparr>,
                   PFloat 0.3)]"]
  by (simp add: fixed_vector_def rows_response_def scored_row_def get_entries_def
      vector_row_def Document_new_def TEXT_KEY_def del: not_None_eq)

text \<open>
  The reading of C1 with \<^verbatim>\<open>score <= score_threshold\<close> fails: with the scores 0.1, 0.5
  and 0.9 and the threshold 0.5 the search returns the row scoring 0.9 alone.
\<close>

theorem search_by_vector_threshold_counterexample:
  "fst (search_by_vector
          (fixed_vector (rows_response
             [scored_row ''near'' 0.1, scored_row ''mid'' 0.5, scored_row ''far'' 0.9]) [])
          [1, 0]
          \<lparr>where_filter = None, top_k = None, score_threshold = Some 0.5,
           search_distance = None, additional = None\<rparr>)
     = Inr [\<lparr>page_content = ''far'',
              metadata = [(''_additional'', PDict [(''distance'', PFloat 0.9)]),
                          (''score'', PFloat 0.9)]\<rparr>]
   \<and> (0.1 :: real) \<le> 0.5 \<and> (0.5 :: real) \<le> 0.5 \<and> \<not> (0.9 :: real) \<le> 0.5"
  by (simp add: search_by_vector_def fixed_vector_def rows_response_def scored_row_def
      query_do_def get_entries_def vector_row_def Document_new_def py_gt_def kwargs_get_def
      TEXT_KEY_def Let_def)

section \<open>Query errors, the existence check and full-text search\<close>

lemma text_exists_issued:
  "issued (client (snd (text_exists self id'))) =
     issued (client self) @
       [\<lparr>q_class = collection_name self, q_near_vector = None,
         q_where = Some (PDict [(''path'', PList [PStr ''doc_id'']),
                                (''operator'', PStr ''Equal''),
                                (''valueText'', PStr id')]),
         q_limit = Some (PInt 1),
         q_additional = Some (PList [PStr ''id'']),
         q_bm25 = None\<rparr>]"
  by (simp add: text_exists_def query_do_def Let_def with_additional_def with_limit_def
      with_where_def query_get_def split_def)

lemma text_exists_result:
  "fst (text_exists self id') =
     (let result = answer (client self)
            \<lparr>q_class = collection_name self, q_near_vector = None,
             q_where = Some (PDict [(''path'', PList [PStr ''doc_id'']),
                                    (''operator'', PStr ''Equal''),
                                    (''valueText'', PStr id')]),
             q_limit = Some (PInt 1),
             q_additional = Some (PList [PStr ''id'']),
             q_bm25 = None\<rparr>
      in case map_of result ''errors'' of
           Some errors \<Rightarrow> Inl (ValueError_query errors)
         | None \<Rightarrow>
             (case get_entries result (collection_name self) of
                Inl e \<Rightarrow> Inl e
              | Inr entries \<Rightarrow>
                  (case py_len entries of
                     Inl e \<Rightarrow> Inl e
                   | Inr n \<Rightarrow> Inr (if n = 0 then False else True))))"
  by (simp add: text_exists_def query_do_def Let_def with_additional_def with_limit_def
      with_where_def query_get_def split_def
      cong del: option.case_cong_weak sum.case_cong_weak)

lemma search_by_full_text_issued:
  "issued (client (snd (search_by_full_text self query_text kw))) =
     issued (client self) @
       [\<lparr>q_class = collection_name self, q_near_vector = None,
         q_where = (case where_filter kw of
                      None \<Rightarrow> None
                    | Some w \<Rightarrow> if py_truthy w then Some w else None),
         q_limit = Some (case top_k kw of None \<Rightarrow> PInt 2 | Some k \<Rightarrow> k),
         q_additional = (case additional kw of
                           None \<Rightarrow> None
                         | Some a \<Rightarrow> if py_truthy a then Some a else None),
         q_bm25 = Some (query_text, [''text''])\<rparr>]"
  by (simp add: search_by_full_text_def query_do_def Let_def with_additional_def with_limit_def
      with_where_def with_bm25_def query_get_def kwargs_get_def split_def
      split: option.splits)

lemma search_by_full_text_result:
  "fst (search_by_full_text self query_text kw) =
     (let result = answer (client self)
            \<lparr>q_class = collection_name self, q_near_vector = None,
             q_where = (case where_filter kw of
                          None \<Rightarrow> None
                        | Some w \<Rightarrow> if py_truthy w then Some w else None),
             q_limit = Some (case top_k kw of None \<Rightarrow> PInt 2 | Some k \<Rightarrow> k),
             q_additional = (case additional kw of
                               None \<Rightarrow> None
                             | Some a \<Rightarrow> if py_truthy a then Some a else None),
             q_bm25 = Some (query_text, [''text''])\<rparr>
      in case map_of result ''errors'' of
           Some errors \<Rightarrow> Inl (ValueError_query errors)
         | None \<Rightarrow>
             (case get_entries result (collection_name self) of
                Inl e \<Rightarrow> Inl e
              | Inr entries \<Rightarrow>
                  (case py_iter entries of
                     Inl e \<Rightarrow> Inl e
                   | Inr rows \<Rightarrow> for_each full_text_row rows)))"
  by (cases "where_filter kw"; cases "additional kw")
     (simp_all add: search_by_full_text_def query_do_def Let_def with_additional_def with_limit_def
      with_where_def with_bm25_def query_get_def kwargs_get_def split_def
      cong del: option.case_cong_weak sum.case_cong_weak)

lemma subscript_no_query_error: "subscript v k \<noteq> Inl (ValueError_query e)"
  by (cases v) (auto split: option.splits)

lemma get_entries_no_query_error: "get_entries r cn \<noteq> Inl (ValueError_query e)"
  by (auto simp: get_entries_def subscript_no_query_error split: sum.splits option.splits)

lemma py_len_no_query_error: "py_len v \<noteq> Inl (ValueError_query e)"
  by (cases v) auto

lemma py_iter_no_query_error: "py_iter v \<noteq> Inl (ValueError_query e)"
  by (cases v) auto

lemma py_pop_no_query_error: "py_pop v k \<noteq> Inl (ValueError_query e)"
  by (cases v) (auto split: option.splits)

lemma Document_new_no_query_error: "Document_new v md \<noteq> Inl (ValueError_query e)"
  by (cases v) (auto simp: Document_new_def)

lemma vector_row_no_query_error: "vector_row v \<noteq> Inl (ValueError_query e)"
  by (auto simp: vector_row_def py_pop_no_query_error subscript_no_query_error
      Document_new_no_query_error split: sum.splits prod.splits option.splits)

lemma full_text_row_no_query_error: "full_text_row v \<noteq> Inl (ValueError_query e)"
  by (auto simp: full_text_row_def py_pop_no_query_error Document_new_no_query_error
      split: sum.splits prod.splits)

lemma for_each_no_query_error:
  "(\<And>x. f x \<noteq> Inl (ValueError_query e)) \<Longrightarrow> for_each f xs \<noteq> Inl (ValueError_query e)"
  by (induction xs) (auto split: sum.splits)

lemma threshold_loop_no_query_error: "threshold_loop t ds \<noteq> Inl (ValueError_query e)"
  by (induction t ds rule: threshold_loop.induct)
     (auto simp: py_gt_def split: sum.splits option.splits)

lemma full_text_row_Inr:
  "full_text_row row = Inr doc \<longleftrightarrow>
     (\<exists>d t. row = PDict d \<and> map_of d TEXT_KEY = Some (PStr t)
        \<and> doc = \<lparr>page_content = t, metadata = AList.delete TEXT_KEY d\<rparr>)"
  by (cases row)
     (auto simp: full_text_row_def Document_new_def split: option.splits pyval.splits)

lemma for_each_full_text_rows:
  "\<forall>d \<in> set ds. \<exists>t. map_of d TEXT_KEY = Some (PStr t) \<Longrightarrow>
     for_each full_text_row (map PDict ds) =
       Inr (map (\<lambda>d. \<lparr>page_content = (case map_of d TEXT_KEY of Some (PStr t) \<Rightarrow> t | _ \<Rightarrow> []),
                        metadata = AList.delete TEXT_KEY d\<rparr>) ds)"
  by (induction ds) (auto simp: full_text_row_def Document_new_def)

text \<open>
  C4, as the code has it. Vector search, the existence check and full-text search each
  execute exactly one query, and each fails with the query error carrying
  \<^verbatim>\<open>result['errors']\<close> exactly when the response has an \<^verbatim>\<open>errors\<close> entry,
  whatever that entry holds; a response without the entry is never rejected as a query
  error.
\<close>

theorem query_errors_surface:
  fixes self :: WeaviateVector and kw :: kwargs and query_vector :: "real list"
    and query_text id' :: string
  defines "qv \<equiv> \<lparr>q_class = collection_name self, q_near_vector = Some query_vector,
             q_where = Some (case where_filter kw of None \<Rightarrow> PNone | Some w \<Rightarrow> w),
             q_limit = Some (case top_k kw of None \<Rightarrow> PInt 4 | Some k \<Rightarrow> k),
             q_additional = Some (PList [PStr ''vector'', PStr ''distance'']),
             q_bm25 = None\<rparr>"
    and "qe \<equiv> \<lparr>q_class = collection_name self, q_near_vector = None,
             q_where = Some (PDict [(''path'', PList [PStr ''doc_id'']),
                                    (''operator'', PStr ''Equal''),
                                    (''valueText'', PStr id')]),
             q_limit = Some (PInt 1),
             q_additional = Some (PList [PStr ''id'']),
             q_bm25 = None\<rparr>"
    and "qf \<equiv> \<lparr>q_class = collection_name self, q_near_vector = None,
             q_where = (case where_filter kw of
                          None \<Rightarrow> None
                        | Some w \<Rightarrow> if py_truthy w then Some w else None),
             q_limit = Some (case top_k kw of None \<Rightarrow> PInt 2 | Some k \<Rightarrow> k),
             q_additional = (case additional kw of
                               None \<Rightarrow> None
                             | Some a \<Rightarrow> if py_truthy a then Some a else None),
             q_bm25 = Some (query_text, [''text''])\<rparr>"
  shows "((fst (search_by_vector self query_vector kw) = Inl (ValueError_query v))
            = (map_of (answer (client self) qv) ''errors'' = Some v))
       \<and> issued (client (snd (search_by_vector self query_vector kw))) = issued (client self) @ [qv]
       \<and> ((fst (text_exists self id') = Inl (ValueError_query v))
            = (map_of (answer (client self) qe) ''errors'' = Some v))
       \<and> issued (client (snd (text_exists self id'))) = issued (client self) @ [qe]
       \<and> ((fst (search_by_full_text self query_text kw) = Inl (ValueError_query v))
            = (map_of (answer (client self) qf) ''errors'' = Some v))
       \<and> issued (client (snd (search_by_full_text self query_text kw))) = issued (client self) @ [qf]"
proof (intro conjI)
  show "(fst (search_by_vector self query_vector kw) = Inl (ValueError_query v))
            = (map_of (answer (client self) qv) ''errors'' = Some v)"
    unfolding search_by_vector_result qv_def [symmetric] Let_def
    by (auto simp: get_entries_no_query_error py_iter_no_query_error
        for_each_no_query_error vector_row_no_query_error threshold_loop_no_query_error
        split: option.splits sum.splits)
  show "issued (client (snd (search_by_vector self query_vector kw))) = issued (client self) @ [qv]"
    unfolding qv_def by (rule search_by_vector_issued)
  show "(fst (text_exists self id') = Inl (ValueError_query v))
            = (map_of (answer (client self) qe) ''errors'' = Some v)"
    unfolding text_exists_result qe_def [symmetric] Let_def
    by (auto simp: get_entries_no_query_error py_len_no_query_error
        split: option.splits sum.splits)
  show "issued (client (snd (text_exists self id'))) = issued (client self) @ [qe]"
    unfolding qe_def by (rule text_exists_issued)
  show "(fst (search_by_full_text self query_text kw) = Inl (ValueError_query v))
            = (map_of (answer (client self) qf) ''errors'' = Some v)"
    unfolding search_by_full_text_result qf_def [symmetric] Let_def
    by (auto simp: get_entries_no_query_error py_iter_no_query_error
        for_each_no_query_error full_text_row_no_query_error
        split: option.splits sum.splits)
  show "issued (client (snd (search_by_full_text self query_text kw))) = issued (client self) @ [qf]"
    unfolding qf_def by (rule search_by_full_text_issued)
qed

text \<open>
  C8. The existence check executes one query: the entries of the collection whose
  \<^verbatim>\<open>doc_id\<close> equals the id, limit 1. When the response has no \<^verbatim>\<open>errors\<close> entry
  and holds the list of rows, the check returns whether that list is non-empty; and
  whenever it returns a truth value, that value says that the entries of the response
  number more than zero.
\<close>

theorem text_exists_iff_rows:
  fixes self :: WeaviateVector and id' :: string
  defines "qe \<equiv> \<lparr>q_class = collection_name self, q_near_vector = None,
             q_where = Some (PDict [(''path'', PList [PStr ''doc_id'']),
                                    (''operator'', PStr ''Equal''),
                                    (''valueText'', PStr id')]),
             q_limit = Some (PInt 1),
             q_additional = Some (PList [PStr ''id'']),
             q_bm25 = None\<rparr>"
  shows "issued (client (snd (text_exists self id'))) = issued (client self) @ [qe]
       \<and> (map_of (answer (client self) qe) ''errors'' = None
            \<and> get_entries (answer (client self) qe) (collection_name self) = Inr (PList rows)
          \<longrightarrow> fst (text_exists self id') = Inr (rows \<noteq> []))
       \<and> (fst (text_exists self id') = Inr b
          \<longrightarrow> map_of (answer (client self) qe) ''errors'' = None
              \<and> (\<exists>entries n. get_entries (answer (client self) qe) (collection_name self) = Inr entries
                    \<and> py_len entries = Inr n \<and> b = (0 < n)))"
proof (intro conjI impI)
  show "issued (client (snd (text_exists self id'))) = issued (client self) @ [qe]"
    unfolding qe_def by (rule text_exists_issued)
next
  assume "map_of (answer (client self) qe) ''errors'' = None
            \<and> get_entries (answer (client self) qe) (collection_name self) = Inr (PList rows)"
  then show "fst (text_exists self id') = Inr (rows \<noteq> [])"
    unfolding text_exists_result qe_def [symmetric] Let_def by simp
next
  assume a: "fst (text_exists self id') = Inr b"
  then show "map_of (answer (client self) qe) ''errors'' = None"
    unfolding text_exists_result qe_def [symmetric] Let_def
    by (auto split: option.splits)
  from a show "\<exists>entries n. get_entries (answer (client self) qe) (collection_name self) = Inr entries
                    \<and> py_len entries = Inr n \<and> b = (0 < n)"
    unfolding text_exists_result qe_def [symmetric] Let_def
    by (auto split: option.splits sum.splits if_splits)
qed

text \<open>
  C9. Full-text search executes one BM25 query over the text field whose limit is
  \<^verbatim>\<open>top_k\<close>, 2 when it is not supplied. When it returns documents, there is one
  document per row of the response, in order (no row is filtered out), and each document
  has the row's text as content and the row without its text field as metadata.
  Conversely, when every row is a dict with a string under the text field, the search
  returns exactly these documents.
\<close>

theorem search_by_full_text_maps_rows:
  fixes self :: WeaviateVector and kw :: kwargs and query_text :: string
  defines "qf \<equiv> \<lparr>q_class = collection_name self, q_near_vector = None,
             q_where = (case where_filter kw of
                          None \<Rightarrow> None
                        | Some w \<Rightarrow> if py_truthy w then Some w else None),
             q_limit = Some (case top_k kw of None \<Rightarrow> PInt 2 | Some k \<Rightarrow> k),
             q_additional = (case additional kw of
                               None \<Rightarrow> None
                             | Some a \<Rightarrow> if py_truthy a then Some a else None),
             q_bm25 = Some (query_text, [''text''])\<rparr>"
  shows "issued (client (snd (search_by_full_text self query_text kw))) = issued (client self) @ [qf]
       \<and> (fst (search_by_full_text self query_text kw) = Inr docs
          \<longrightarrow> (\<exists>entries rows.
                 map_of (answer (client self) qf) ''errors'' = None
               \<and> get_entries (answer (client self) qf) (collection_name self) = Inr entries
               \<and> py_iter entries = Inr rows
               \<and> length docs = length rows
               \<and> list_all2 (\<lambda>row doc. \<exists>d t. row = PDict d \<and> map_of d TEXT_KEY = Some (PStr t)
                       \<and> doc = \<lparr>page_content = t, metadata = AList.delete TEXT_KEY d\<rparr>)
                     rows docs))
       \<and> (map_of (answer (client self) qf) ''errors'' = None
            \<and> get_entries (answer (client self) qf) (collection_name self) = Inr (PList (map PDict ds))
            \<and> (\<forall>d \<in> set ds. \<exists>t. map_of d TEXT_KEY = Some (PStr t))
          \<longrightarrow> fst (search_by_full_text self query_text kw)
                = Inr (map (\<lambda>d. \<lparr>page_content = (case map_of d TEXT_KEY of
                                                     Some (PStr t) \<Rightarrow> t | _ \<Rightarrow> []),
                                   metadata = AList.delete TEXT_KEY d\<rparr>) ds))"
proof (intro conjI impI)
  show "issued (client (snd (search_by_full_text self query_text kw))) = issued (client self) @ [qf]"
    unfolding qf_def by (rule search_by_full_text_issued)
next
  assume a: "fst (search_by_full_text self query_text kw) = Inr docs"
  let ?r = "answer (client self) qf"
  from a obtain entries rows where
    n: "map_of ?r ''errors'' = None"
    and e: "get_entries ?r (collection_name self) = Inr entries"
    and r: "py_iter entries = Inr rows"
    and f: "for_each full_text_row rows = Inr docs"
    unfolding search_by_full_text_result qf_def [symmetric] Let_def
    by (auto split: option.splits sum.splits)
  from for_each_Inr [OF f] have l: "list_all2 (\<lambda>row doc. \<exists>d t. row = PDict d
        \<and> map_of d TEXT_KEY = Some (PStr t)
        \<and> doc = \<lparr>page_content = t, metadata = AList.delete TEXT_KEY d\<rparr>) rows docs"
    by (simp add: full_text_row_Inr)
  then have "length docs = length rows" by (simp add: list_all2_lengthD)
  with n e r l show "\<exists>entries rows.
                 map_of (answer (client self) qf) ''errors'' = None
               \<and> get_entries (answer (client self) qf) (collection_name self) = Inr entries
               \<and> py_iter entries = Inr rows
               \<and> length docs = length rows
               \<and> list_all2 (\<lambda>row doc. \<exists>d t. row = PDict d \<and> map_of d TEXT_KEY = Some (PStr t)
                       \<and> doc = \<lparr>page_content = t, metadata = AList.delete TEXT_KEY d\<rparr>)
                     rows docs"
    by blast
next
  assume "map_of (answer (client self) qf) ''errors'' = None
            \<and> get_entries (answer (client self) qf) (collection_name self) = Inr (PList (map PDict ds))
            \<and> (\<forall>d \<in> set ds. \<exists>t. map_of d TEXT_KEY = Some (PStr t))"
  then show "fst (search_by_full_text self query_text kw)
                = Inr (map (\<lambda>d. \<lparr>page_content = (case map_of d TEXT_KEY of
                                                     Some (PStr t) \<Rightarrow> t | _ \<Rightarrow> []),
                                   metadata = AList.delete TEXT_KEY d\<rparr>) ds)"
    unfolding search_by_full_text_result qf_def [symmetric] Let_def
    by (simp add: for_each_full_text_rows)
qed

text \<open>
  C10. Changing the \<^verbatim>\<open>search_distance\<close> keyword changes nothing: the result, the
  query executed and the state of the client are the same. The dict \<^verbatim>\<open>content\<close>
  that receives the value is never read.
\<close>

theorem search_by_full_text_ignores_search_distance:
  "search_by_full_text self query_text (kw\<lparr>search_distance := sd\<rparr>)
     = search_by_full_text self query_text kw"
  by (simp add: search_by_full_text_def Let_def)

theorem query_errors_surface_witness:
  "fst (search_by_vector
          (fixed_vector [(''errors'', PList [PDict [(''message'', PStr ''no such class'')]])] [])
          [1, 0] \<lparr>where_filter = None, top_k = None, score_threshold = None,
           search_distance = None, additional = None\<rparr>)
     = Inl (ValueError_query (PList [PDict [(''message'', PStr ''no such class'')]]))
   \<and> fst (text_exists
          (fixed_vector [(''errors'', PList [PDict [(''message'', PStr ''no such class'')]])] [])
          ''d1'')
     = Inl (ValueError_query (PList [PDict [(''message'', PStr ''no such class'')]]))
   \<and> fst (search_by_full_text
          (fixed_vector [(''errors'', PList [PDict [(''message'', PStr ''no such class'')]])] [])
          ''words'' \<lparr>where_filter = None, top_k = None, score_threshold = None,
           search_distance = None, additional = None\<rparr>)
     = Inl (ValueError_query (PList [PDict [(''message'', PStr ''no such class'')]]))
   \<and> length (issued (client (snd (search_by_vector
          (fixed_vector [(''errors'', PList [PDict [(''message'', PStr ''no such class'')]])] [])
          [1, 0] \<lparr>where_filter = None, top_k = None, score_threshold = None,
           search_distance = None, additional = None\<rparr>)))) = 1"
  using query_errors_surface
    [where self = "fixed_vector [(''errors'', PList [PDict [(''message'', PStr ''no such class'')]])] []"
       and query_vector = "[1, 0]" and query_text = "''words''" and id' = "''d1''"
       and kw = "\<lparr>where_filter = None, top_k = None, score_threshold = None,
           search_distance = None, additional = None\<rparr>"
       and v = "PList [PDict [(''message'', PStr ''no such class'')]]"]
  by (simp add: fixed_vector_def)

text \<open>
  The reading of C4 with a non-empty error list fails: a response whose \<^verbatim>\<open>errors\<close>
  entry is the empty list, next to well-formed data, is rejected by all three calls.
\<close>

theorem query_errors_surface_counterexample:
  "fst (text_exists
          (fixed_vector ((''errors'', PList []) # rows_response [scored_row ''a'' 1]) [])
          ''d1'')
     = Inl (ValueError_query (PList []))
   \<and> fst (search_by_vector
          (fixed_vector ((''errors'', PList []) # rows_response [scored_row ''a'' 1]) [])
          [1, 0] \<lparr>where_filter = None, top_k = None, score_threshold = None,
           search_distance = None, additional = None\<rparr>)
     = Inl (ValueError_query (PList []))
   \<and> fst (search_by_full_text
          (fixed_vector ((''errors'', PList []) # rows_response [scored_row ''a'' 1]) [])
          ''words'' \<lparr>where_filter = None, top_k = None, score_threshold = None,
           search_distance = None, additional = None\<rparr>)
     = Inl (ValueError_query (PList []))"
  by (simp add: text_exists_def search_by_vector_def search_by_full_text_def fixed_vector_def
      query_do_def Let_def)

theorem text_exists_iff_rows_witness:
  "fst (text_exists (fixed_vector (rows_response [scored_row ''a'' 1]) []) ''d1'') = Inr True
   \<and> fst (text_exists (fixed_vector (rows_response []) []) ''d1'') = Inr False"
  using text_exists_iff_rows
    [where self = "fixed_vector (rows_response [scored_row ''a'' 1]) []" and id' = "''d1''"
       and rows = "[scored_row ''a'' 1]" and b = True]
    text_exists_iff_rows
    [where self = "fixed_vector (rows_response []) []" and id' = "''d1''"
       and rows = "[]" and b = False]
  by (simp add: fixed_vector_def rows_response_def get_entries_def)

theorem search_by_full_text_maps_rows_witness:
  "fst (search_by_full_text
          (fixed_vector (rows_response
             [PDict [(''text'', PStr ''alpha''), (''doc_id'', PStr ''d1'')],
              PDict [(''source'', PStr ''s''), (''text'', PStr ''beta'')]]) [])
          ''words'' \<lparr>where_filter = None, top_k = None, score_threshold = None,
           search_distance = None, additional = None\<rparr>)
     = Inr [\<lparr>page_content = ''alpha'', metadata = [(''doc_id'', PStr ''d1'')]\<rparr>,
            \<lparr>page_content = ''beta'', metadata = [(''source'', PStr ''s'')]\<rparr>]
   \<and> map q_limit (issued (client (snd (search_by_full_text
          (fixed_vector (rows_response
             [PDict [(''text'', PStr ''alpha''), (''doc_id'', PStr ''d1'')],
              PDict [(''source'', PStr ''s''), (''text'', PStr ''beta'')]]) [])
          ''words'' \<lparr>where_filter = None, top_k = None, score_threshold = None,
           search_distance = None, additional = None\<rparr>)))) = [Some (PInt 2)]"
  using search_by_full_text_maps_rows
    [where self = "fixed_vector (rows_response
             [PDict [(''text'', PStr ''alpha''), (''doc_id'', PStr ''d1'')],
              PDict [(''source'', PStr ''s''), (''text'', PStr ''beta'')]]) []"
       and query_text = "''words''" and kw = "\<lparr>where_filter = None, top_k = None, score_threshold = None,
           search_distance = None, additional = None\<rparr>" and docs = "[]"
       and ds = "[[(''text'', PStr ''alpha''), (''doc_id'', PStr ''d1'')],
                  [(''source'', PStr ''s''), (''text'', PStr ''beta'')]]"]
  by (simp add: fixed_vector_def rows_response_def get_entries_def TEXT_KEY_def)

theorem search_by_full_text_ignores_search_distance_witness:
  "search_by_full_text
     (fixed_vector (rows_response [PDict [(''text'', PStr ''alpha'')]]) []) ''words''
     \<lparr>where_filter = None, top_k = None, score_threshold = None,
      search_distance = Some (PFloat 0.7), additional = None\<rparr>
   = search_by_full_text
     (fixed_vector (rows_response [PDict [(''text'', PStr ''alpha'')]]) []) ''words''
     \<lparr>where_filter = None, top_k = None, score_threshold = None,
      search_distance = Some (PFloat 0.2), additional = None\<rparr>"
  using search_by_full_text_ignores_search_distance
    [where self = "fixed_vector (rows_response [PDict [(''text'', PStr ''alpha'')]]) []"
       and query_text = "''words''"
       and kw = "\<lparr>where_filter = None, top_k = None, score_threshold = None,
                  search_distance = Some (PFloat 0.2), additional = None\<rparr>"
       and sd = "Some (PFloat 0.7)"]
  by simp

section \<open>Batched ingestion\<close>

lemma batch_flush_items:
  "concat (batch_sent (batch_flush c)) @ batch_pending (batch_flush c)
     = concat (batch_sent c) @ batch_pending c"
  by (simp add: batch_flush_def)

lemma batch_flush_pending: "batch_pending (batch_flush c) = []"
  by (simp add: batch_flush_def)

lemma batch_flush_schema: "schema_classes (batch_flush c) = schema_classes c"
  by (simp add: batch_flush_def)

lemma batch_add_items:
  "concat (batch_sent (batch_add_data_object obj c)) @ batch_pending (batch_add_data_object obj c)
     = concat (batch_sent c) @ batch_pending c @ [obj]"
  by (simp add: batch_add_data_object_def batch_flush_def Let_def)

lemma batch_add_schema: "schema_classes (batch_add_data_object obj c) = schema_classes c"
  by (simp add: batch_add_data_object_def batch_flush_def Let_def)

lemma add_texts_loop_schema:
  "schema_classes (snd (add_texts_loop cn uuids mds embs its ids b)) = schema_classes b"
  by (induction cn uuids mds embs its ids b rule: add_texts_loop.induct)
     (simp_all add: Let_def batch_add_schema)

lemma add_texts_loop_fst:
  "fst (add_texts_loop cn uuids mds embs its ids b) =
     (if \<forall>(i, text) \<in> set its. i < length uuids \<and> (embs = [] \<or> i < length embs)
      then Inr (ids @ map (\<lambda>(i, text). uuids ! i) its)
      else Inl IndexError)"
  by (induction cn uuids mds embs its ids b rule: add_texts_loop.induct)
     (auto simp: Let_def)

lemma add_texts_loop_items:
  "fst (add_texts_loop cn uuids mds embs its ids b) = Inr ids' \<Longrightarrow>
     concat (batch_sent (snd (add_texts_loop cn uuids mds embs its ids b)))
       @ batch_pending (snd (add_texts_loop cn uuids mds embs its ids b))
     = concat (batch_sent b) @ batch_pending b
       @ map (\<lambda>(i, text).
                \<lparr>data_object = data_properties_of text (mds ! i), class_name = cn,
                 uuid = uuids ! i,
                 vector = (if embs \<noteq> [] then Some (embs ! i) else None)\<rparr>) its"
  by (induction cn uuids mds embs its ids b rule: add_texts_loop.induct)
     (auto simp: Let_def batch_add_items split: if_splits)

lemma enumerate_bound:
  "(\<forall>(i, x) \<in> set (enumerate 0 xs). i < n \<and> (e \<or> i < m))
     \<longleftrightarrow> (xs = [] \<or> (length xs \<le> n \<and> (e \<or> length xs \<le> m)))"
proof (cases xs rule: rev_cases)
  case Nil
  then show ?thesis by simp
next
  case (snoc ys y)
  have "(length ys, y) \<in> set (enumerate 0 xs)"
    by (simp add: snoc in_set_enumerate_eq)
  then show ?thesis
    by (fastforce simp: in_set_enumerate_eq snoc)
qed

lemma map_enumerate_nth:
  "length xs \<le> length us \<Longrightarrow> map (\<lambda>(i, x). us ! i) (enumerate 0 xs) = take (length xs) us"
  by (auto simp: list_eq_iff_nth_eq nth_enumerate_eq)

lemma add_texts_fst:
  "fst (add_texts get_uuids self documents embeddings) =
     (case get_uuids documents of
        Inl e \<Rightarrow> Inl e
      | Inr uuids \<Rightarrow>
          if documents = [] \<or> (length documents \<le> length uuids
               \<and> (embeddings = [] \<or> length documents \<le> length embeddings))
          then Inr (take (length documents) uuids)
          else Inl IndexError)"
proof (cases "get_uuids documents")
  case (Inl e)
  then show ?thesis by (simp add: add_texts_def)
next
  case (Inr uuids)
  have "fst (add_texts get_uuids self documents embeddings) =
          fst (add_texts_loop (collection_name self) uuids (map metadata documents) embeddings
                 (enumerate 0 (map page_content documents)) [] (client self))"
    by (simp add: add_texts_def Inr Let_def split_def)
  also have "\<dots> = (if documents = [] \<or> (length documents \<le> length uuids
               \<and> (embeddings = [] \<or> length documents \<le> length embeddings))
          then Inr (take (length documents) uuids)
          else Inl IndexError)"
    unfolding add_texts_loop_fst
    using enumerate_bound [of "map page_content documents" "length uuids" "embeddings = []"
        "length embeddings"]
      map_enumerate_nth [of "map page_content documents" uuids]
    by auto
  finally show ?thesis by (simp add: Inr)
qed

lemma add_texts_schema:
  "schema_classes (client (snd (add_texts get_uuids self documents embeddings)))
     = schema_classes (client self)"
  by (cases "get_uuids documents")
     (simp_all add: add_texts_def Let_def split_def batch_flush_schema add_texts_loop_schema)

text \<open>
  C3. Whenever \<^verbatim>\<open>add_texts\<close> returns, it returns the first identifiers the
  identity assigner gave, one per input document and in the order of the documents. It
  does return, with exactly the assigner's list, when the assigner gave one identifier
  per document and the embeddings are absent or cover every document. The list returned
  is the same for every state of the client: the configured batch size and the objects
  already waiting in the batch decide how the writes are grouped, never which ids come
  back.
\<close>

theorem add_texts_ids_in_order:
  "(fst (add_texts get_uuids self documents embeddings) = Inr ids
      \<longrightarrow> (\<exists>uuids. get_uuids documents = Inr uuids
             \<and> ids = take (length documents) uuids
             \<and> length ids = length documents
             \<and> (\<forall>i < length documents. ids ! i = uuids ! i)))
   \<and> (get_uuids documents = Inr uuids \<and> length uuids = length documents
        \<and> (embeddings = [] \<or> length documents \<le> length embeddings)
      \<longrightarrow> fst (add_texts get_uuids self documents embeddings) = Inr uuids)
   \<and> fst (add_texts get_uuids (self\<lparr>client := c\<rparr>) documents embeddings)
       = fst (add_texts get_uuids self documents embeddings)"
proof (intro conjI impI)
  assume "fst (add_texts get_uuids self documents embeddings) = Inr ids"
  then show "\<exists>uuids. get_uuids documents = Inr uuids
             \<and> ids = take (length documents) uuids
             \<and> length ids = length documents
             \<and> (\<forall>i < length documents. ids ! i = uuids ! i)"
    unfolding add_texts_fst by (auto split: sum.splits if_splits)
next
  assume "get_uuids documents = Inr uuids \<and> length uuids = length documents
        \<and> (embeddings = [] \<or> length documents \<le> length embeddings)"
  then show "fst (add_texts get_uuids self documents embeddings) = Inr uuids"
    unfolding add_texts_fst by auto
next
  show "fst (add_texts get_uuids (self\<lparr>client := c\<rparr>) documents embeddings)
       = fst (add_texts get_uuids self documents embeddings)"
    unfolding add_texts_fst by simp
qed

theorem add_texts_ids_in_order_witness:
  "fst (add_texts (\<lambda>ds. Inr [''u1'', ''u2'', ''u3''])
         (fixed_vector [] [])
         [\<lparr>page_content = ''a'', metadata = []\<rparr>, \<lparr>page_content = ''b'', metadata = []\<rparr>,
          \<lparr>page_content = ''c'', metadata = []\<rparr>]
         [[1, 0], [0, 1], [1, 1]])
     = Inr [''u1'', ''u2'', ''u3'']"
  using add_texts_ids_in_order
    [where get_uuids = "\<lambda>ds. Inr [''u1'', ''u2'', ''u3'']"
       and self = "fixed_vector [] []"
       and documents = "[\<lparr>page_content = ''a'', metadata = []\<rparr>,
                         \<lparr>page_content = ''b'', metadata = []\<rparr>,
                         \<lparr>page_content = ''c'', metadata = []\<rparr>]"
       and embeddings = "[[1, 0], [0, 1], [1, 1]]"
       and uuids = "[''u1'', ''u2'', ''u3'']"
       and ids = "[]" and c = "client (fixed_vector [] [])"]
  by simp

lemma fold_update_map_of:
  "map_of (fold (\<lambda>(key, val) dp. AList.update key (f val) dp) md init) k =
     (case map_of (rev md) k of Some v \<Rightarrow> Some (f v) | None \<Rightarrow> map_of init k)"
  by (induction md arbitrary: init)
     (auto simp: update_conv' map_add_def split: option.splits)

lemma map_of_rev_distinct:
  "distinct (map fst xs) \<Longrightarrow> map_of (rev xs) k = map_of xs k"
proof (induction xs)
  case Nil
  then show ?case by simp
next
  case (Cons p xs)
  obtain a b where p: "p = (a, b)" by (cases p)
  from Cons.prems p have "a \<notin> fst ` set xs" by simp
  then have n: "map_of xs a = None" by (simp add: map_of_eq_None_iff)
  from Cons have ih: "map_of (rev xs) k = map_of xs k" by simp
  show ?case
    using ih n by (cases "k = a") (auto simp: p map_add_def split: option.splits)
qed

lemma data_properties_of_lookup:
  assumes "distinct (map fst md)"
  shows "map_of (data_properties_of text md) k =
     (case map_of md k of
        Some v \<Rightarrow> Some (json_serializable v)
      | None \<Rightarrow> if k = TEXT_KEY then Some (PStr text) else None)"
proof -
  from assms have "map_of (rev md) k = map_of md k"
    by (rule map_of_rev_distinct)
  then show ?thesis
    by (simp add: data_properties_of_def fold_update_map_of split: option.splits)
qed

lemma length_zfill: "length (zfill w n) = w"
  by (induction w n rule: zfill.induct) simp_all

lemma isoformat_naive_shape:
  assumes "utcoffset d = None" and "microsecond d = 0"
  shows "length (isoformat d) = 19 \<and> isoformat d ! 4 = CHR ''-'' \<and> isoformat d ! 7 = CHR ''-''
       \<and> isoformat d ! 10 = CHR ''T'' \<and> isoformat d ! 13 = CHR '':''
       \<and> isoformat d ! 16 = CHR '':''"
  using assms by (simp add: isoformat_def format_offset_def length_zfill nth_append)

end
